theory Spec2Isabelle
  imports Complex_Main "HOL-Library.Multiset" "HOL-Library.Char_ord" "HOL-Library.List_Lexorder"
begin

section \<open>Data model: the four CSV tables\<close>

text \<open>
  A cell of a CSV column that the program treats as numeric is, once read, one of three
  things: an empty cell (pandas' NaN), text that parses as a number, or text that does not.
  Numbers are exact rationals here: the development abstracts from binary floating point
  (no rounding error, no infinities).
\<close>

datatype cell = Empty | Numeric rat | Text string

text \<open>
  The rows of the four tables, with the columns the dashboards compute with. Any cell of a
  pandas column may be missing, so every column that is not coerced on load is an option.
  The two numeric columns of the watch history and the two of the users table are type
  parameters: they hold raw cells when read and numbers after ingestion.
\<close>

record ('d, 'p) watch_event =
  w_user_id :: "string option"
  w_movie_id :: "string option"
  device_type :: "string option"
  watch_duration_minutes :: 'd
  progress_percentage :: 'p
  user_rating :: "rat option"

record 'n user =
  user_id :: "string option"
  subscription_plan :: "string option"
  monthly_spend :: 'n
  age :: 'n
  is_active :: "bool option"

record movie =
  movie_id :: "string option"
  genre_primary :: "string option"

record recommendation =
  recommendation_id :: "string option"
  algorithm_version :: "string option"
  recommendation_type :: "string option"
  was_clicked :: "bool option"

record csv_files =
  users_csv :: "cell user list"
  watch_csv :: "(cell, cell) watch_event list"
  movies_csv :: "movie list"
  recs_csv :: "recommendation list"

section \<open>Ingestion\<close>

text \<open>
  \<^verbatim>\<open>pd.to_numeric(column, errors=...)\<close>: with \<^verbatim>\<open>errors="raise"\<close> (the library's
  default) a cell that does not parse raises ValueError; with \<^verbatim>\<open>errors="coerce"\<close>, which
  is what both dashboards pass, it becomes missing.
\<close>

datatype error = ValueError

datatype errors_mode = Raise | Coerce

fun to_numeric_cell :: "errors_mode \<Rightarrow> cell \<Rightarrow> error + rat option" where
  "to_numeric_cell m Empty = Inr None"
| "to_numeric_cell m (Numeric r) = Inr (Some r)"
| "to_numeric_cell Raise (Text s) = Inl ValueError"
| "to_numeric_cell Coerce (Text s) = Inr None"

fun to_numeric :: "errors_mode \<Rightarrow> cell list \<Rightarrow> error + rat option list" where
  "to_numeric m [] = Inr []"
| "to_numeric m (c # cs) =
     (case to_numeric_cell m c of
        Inl e \<Rightarrow> Inl e
      | Inr v \<Rightarrow> (case to_numeric m cs of Inl e \<Rightarrow> Inl e | Inr vs \<Rightarrow> Inr (v # vs)))"

text \<open>\<^verbatim>\<open>Series.fillna(v)\<close> on a numeric column.\<close>

definition fillna :: "rat \<Rightarrow> rat option list \<Rightarrow> rat list" where
  "fillna v col = map (\<lambda>c. case c of None \<Rightarrow> v | Some r \<Rightarrow> r) col"

text \<open>
  Assigning a column back into a table (\<^verbatim>\<open>df[name] = series\<close>) pairs the rows with the
  new values by position.
\<close>

definition set_watch_columns ::
  "('d, 'p) watch_event list \<Rightarrow> 'e list \<Rightarrow> 'q list \<Rightarrow> ('e, 'q) watch_event list" where
  "set_watch_columns df ds ps =
     map (\<lambda>(w, d, p). \<lparr>w_user_id = w_user_id w, w_movie_id = w_movie_id w,
                        device_type = device_type w, watch_duration_minutes = d,
                        progress_percentage = p, user_rating = user_rating w\<rparr>)
         (zip df (zip ds ps))"

definition set_user_columns :: "'n user list \<Rightarrow> 'm list \<Rightarrow> 'm list \<Rightarrow> 'm user list" where
  "set_user_columns df ms ags =
     map (\<lambda>(u, m, a). \<lparr>user_id = user_id u, subscription_plan = subscription_plan u,
                        monthly_spend = m, age = a, is_active = is_active u\<rparr>)
         (zip df (zip ms ags))"

type_synonym loaded_watch = "(rat, rat option) watch_event"
type_synonym loaded_user = "rat option user"

text \<open>
  \<^verbatim>\<open>load_data\<close> of netflix_max_chartier_dashboard.py: the four numeric columns are
  coerced, and the watch duration is then filled with zero.
\<close>

definition load_data ::
  "csv_files \<Rightarrow> error + (loaded_user list \<times> loaded_watch list \<times> movie list \<times> recommendation list)"
  where
  "load_data files =
     (let users = users_csv files; watch = watch_csv files;
          movies = movies_csv files; recs = recs_csv files
      in case to_numeric Coerce (map watch_duration_minutes watch) of
           Inl e \<Rightarrow> Inl e
         | Inr wd \<Rightarrow>
        (case to_numeric Coerce (map progress_percentage watch) of
           Inl e \<Rightarrow> Inl e
         | Inr wp \<Rightarrow>
        (case to_numeric Coerce (map monthly_spend users) of
           Inl e \<Rightarrow> Inl e
         | Inr ms \<Rightarrow>
        (case to_numeric Coerce (map age users) of
           Inl e \<Rightarrow> Inl e
         | Inr ag \<Rightarrow>
             Inr (set_user_columns users ms ag,
                  set_watch_columns watch (fillna 0 wd) wp, movies, recs)))))"

text \<open>
  \<^verbatim>\<open>load_data\<close> of netflix_story_dashboard.py: it reads three files, coerces the watch
  duration, the monthly spend and the age, and leaves \<^verbatim>\<open>progress_percentage\<close> as read.
\<close>

definition load_data_story ::
  "csv_files \<Rightarrow> error + (loaded_user list \<times> (rat, cell) watch_event list \<times> movie list)"
  where
  "load_data_story files =
     (let users = users_csv files; watch = watch_csv files; movies = movies_csv files
      in case to_numeric Coerce (map watch_duration_minutes watch) of
           Inl e \<Rightarrow> Inl e
         | Inr wd \<Rightarrow>
        (case to_numeric Coerce (map monthly_spend users) of
           Inl e \<Rightarrow> Inl e
         | Inr ms \<Rightarrow>
        (case to_numeric Coerce (map age users) of
           Inl e \<Rightarrow> Inl e
         | Inr ag \<Rightarrow>
             Inr (set_user_columns users ms ag,
                  set_watch_columns watch (fillna 0 wd) (map progress_percentage watch),
                  movies))))"

section \<open>Grouping, joining and aggregating\<close>

text \<open>
  \<^verbatim>\<open>df.groupby(key)\<close>: the groups are the distinct keys that occur, in sorted order;
  rows whose key is missing belong to no group (\<^verbatim>\<open>dropna=True\<close>, the default).
\<close>

definition group_keys :: "('r \<Rightarrow> 'k::linorder option) \<Rightarrow> 'r list \<Rightarrow> 'k list" where
  "group_keys key df = sort (remdups (List.map_filter key df))"

definition groupby :: "('r \<Rightarrow> 'k::linorder option) \<Rightarrow> 'r list \<Rightarrow> ('k \<times> 'r list) list" where
  "groupby key df = map (\<lambda>k. (k, filter (\<lambda>r. key r = Some k) df)) (group_keys key df)"

text \<open>
  \<^verbatim>\<open>left.merge(right, on=key, how="left")\<close>: every left row is paired with each right
  row of the same key, in order, or once with nothing when there is none.
  \<^verbatim>\<open>how="inner"\<close> keeps only the pairs.
\<close>

definition merge_left :: "('l \<Rightarrow> 'k) \<Rightarrow> ('r \<Rightarrow> 'k) \<Rightarrow> 'l list \<Rightarrow> 'r list \<Rightarrow> ('l \<times> 'r option) list"
  where
  "merge_left lkey rkey left right =
     concat (map (\<lambda>l. case filter (\<lambda>r. rkey r = lkey l) right of
                          [] \<Rightarrow> [(l, None)]
                        | ms \<Rightarrow> map (\<lambda>r. (l, Some r)) ms) left)"

definition merge_inner :: "('l \<Rightarrow> 'k) \<Rightarrow> ('r \<Rightarrow> 'k) \<Rightarrow> 'l list \<Rightarrow> 'r list \<Rightarrow> ('l \<times> 'r) list"
  where
  "merge_inner lkey rkey left right =
     concat (map (\<lambda>l. map (\<lambda>r. (l, r)) (filter (\<lambda>r. rkey r = lkey l) right)) left)"

text \<open>
  Division of two numeric columns. Where the divisor is zero numpy yields an infinity or
  NaN and no number; that is \<open>None\<close> here.
\<close>

definition np_divide :: "rat \<Rightarrow> rat \<Rightarrow> rat option" where
  "np_divide a b = (if b = 0 then None else Some (a / b))"

text \<open>\<^verbatim>\<open>Series.mean()\<close>: NaN on an empty series.\<close>

definition mean :: "rat list \<Rightarrow> rat option" where
  "mean xs = np_divide (sum_list xs) (of_nat (length xs))"

text \<open>
  \<^verbatim>\<open>Series.quantile(q)\<close> with the default linear interpolation, for \<open>0 \<le> q \<le> 1\<close>
  (the program passes 0.25 and 0.75): position \<open>(n - 1) * q\<close> in the sorted values,
  interpolated between its two neighbours. NaN on an empty series.
\<close>

definition quantile :: "rat list \<Rightarrow> rat \<Rightarrow> rat option" where
  "quantile xs q =
     (if xs = [] then None
      else let s = sort xs; n = length xs;
               h = of_nat (n - 1) * q;
               lo = nat \<lfloor>h\<rfloor>;
               hi = min (lo + 1) (n - 1)
           in Some (s ! lo + (s ! hi - s ! lo) * (h - of_nat lo)))"

section \<open>netflix_max_chartier_dashboard.py: the sections of the page\<close>

text \<open>What a section puts on the page: a chart with its data, an informational message or text.\<close>

datatype rendered =
  Plotly_chart "(string \<times> rat option) list"
| Box_plot "(string \<times> rat) list"
| Info string
| Markdown string

subsection \<open>KPIs\<close>




subsection \<open>Retention by subscription plan\<close>

text \<open>
  \<^verbatim>\<open>groupby('subscription_plan')['is_active'].value_counts().unstack().fillna(0)\<close>:
  one row per plan that has at least one recorded flag (\<^verbatim>\<open>value_counts\<close> drops missing
  values), with the number of True and of False flags.
\<close>

definition retention :: "'n user list \<Rightarrow> (string \<times> nat \<times> nat) list" where
  "retention users =
     map (\<lambda>(plan, g). (plan, length (filter (\<lambda>u. is_active u = Some True) g),
                              length (filter (\<lambda>u. is_active u = Some False) g)))
         (filter (\<lambda>(plan, g). \<exists>u \<in> set g. is_active u \<noteq> None)
                 (groupby subscription_plan users))"

definition retention_rate :: "'n user list \<Rightarrow> (string \<times> rat option) list" where
  "retention_rate users =
     map (\<lambda>(plan, t, f). (plan, np_divide (of_nat t) (of_nat t + of_nat f))) (retention users)"

subsection \<open>Recommendation CTR by algorithm version\<close>

text \<open>\<^verbatim>\<open>recs['was_clicked'].astype(str)\<close> on a column of booleans with missing values.\<close>

fun astype_str :: "bool option \<Rightarrow> string" where
  "astype_str (Some True) = ''True''"
| "astype_str (Some False) = ''False''"
| "astype_str None = ''nan''"

definition ctr :: "recommendation list \<Rightarrow> (string \<times> rat option) list" where
  "ctr recs =
     map (\<lambda>(version, x).
            (version, np_divide (of_nat (length (filter (\<lambda>c. c = ''True'') x)))
                                (of_nat (length x))))
         (map (\<lambda>(version, g). (version, map (\<lambda>r. astype_str (was_clicked r)) g))
              (groupby algorithm_version recs))"

subsection \<open>Recommendation click-through rate by type\<close>

text \<open>
  \<^verbatim>\<open>impressions=("recommendation_id","count")\<close> counts the cells of the column that are
  not missing; \<^verbatim>\<open>clicks\<close> counts the rows whose flag reads True.
\<close>

record rec_summary_row =
  rs_recommendation_type :: string
  impressions :: nat
  clicks :: nat
  rs_ctr :: "rat option"

definition rec_summary :: "recommendation list \<Rightarrow> rec_summary_row list" where
  "rec_summary recs =
     map (\<lambda>(ty, g).
            let imp = length (filter (\<lambda>r. recommendation_id r \<noteq> None) g);
                cl = length (filter (\<lambda>r. astype_str (was_clicked r) = ''True'') g)
            in \<lparr>rs_recommendation_type = ty, impressions = imp, clicks = cl,
                rs_ctr = np_divide (of_nat cl) (of_nat imp)\<rparr>)
         (groupby recommendation_type recs)"

definition ctr_by_type_section :: "recommendation list \<Rightarrow> rendered list" where
  "ctr_by_type_section recs =
     (if recs \<noteq> [] then
        [Plotly_chart (map (\<lambda>r. (rs_recommendation_type r, rs_ctr r)) (rec_summary recs)),
         Markdown ''**New releases is what works the best to get users to click on recommendations'']
      else [Info ''No recommendation logs available to analyze.''])"

subsection \<open>Engagement by device type, and the per-device IQR trim\<close>

text \<open>
  \<^verbatim>\<open>sort_values(column, ascending=False)\<close> on a table of (label, value) rows. The order
  among equal values is the library's choice; here it is the reverse of a stable sort.
\<close>

definition sort_values_desc :: "(string \<times> rat) list \<Rightarrow> (string \<times> rat) list" where
  "sort_values_desc df = rev (sort_key snd df)"

definition device_eng :: "(rat, 'p) watch_event list \<Rightarrow> (string \<times> rat) list" where
  "device_eng watch =
     sort_values_desc
       (map (\<lambda>(d, g). (d, sum_list (map watch_duration_minutes g))) (groupby device_type watch))"

text \<open>
  \<^verbatim>\<open>sess = watch[["device_type", "watch_duration_minutes"]].dropna()\<close>: the two columns
  of the rows that have a device type (the duration is never missing after ingestion).
\<close>

definition sess :: "(rat, 'p) watch_event list \<Rightarrow> (string \<times> rat) list" where
  "sess watch =
     List.map_filter
       (\<lambda>w. case device_type w of None \<Rightarrow> None | Some d \<Rightarrow> Some (d, watch_duration_minutes w))
       watch"

definition iqr_filter :: "(string \<times> rat) list \<Rightarrow> (string \<times> rat) list" where
  "iqr_filter grp =
     (case (quantile (map snd grp) (1 / 4), quantile (map snd grp) (3 / 4)) of
        (Some q1, Some q3) \<Rightarrow>
          (let iqr = q3 - q1;
               lower = q1 - 3 / 2 * iqr;
               upper = q3 + 3 / 2 * iqr
           in filter (\<lambda>r. snd r \<ge> lower \<and> snd r \<le> upper) grp)
      | _ \<Rightarrow> [])"

text \<open>
  \<^verbatim>\<open>sess.groupby("device_type", group_keys=False).apply(_iqr_filter)\<close> when the checkbox
  is ticked: the filtered groups, one after the other.
\<close>

definition sess_f :: "bool \<Rightarrow> (rat, 'p) watch_event list \<Rightarrow> (string \<times> rat) list" where
  "sess_f exclude_outliers watch =
     (if exclude_outliers
      then concat (map (\<lambda>(d, g). iqr_filter g) (groupby (\<lambda>r. Some (fst r)) (sess watch)))
      else sess watch)"

subsection \<open>Satisfaction by device, plan and genre; engagement by plan and genre\<close>

definition watch_rated :: "('d, 'p) watch_event list \<Rightarrow> ('d, 'p) watch_event list" where
  "watch_rated watch = filter (\<lambda>w. user_rating w \<noteq> None) watch"

definition satisfaction_by_device :: "('d, 'p) watch_event list \<Rightarrow> rendered list" where
  "satisfaction_by_device watch =
     (if watch_rated watch \<noteq> [] then
        [Plotly_chart (map (\<lambda>(d, g). (d, mean (List.map_filter user_rating g)))
                           (groupby device_type (watch_rated watch))),
         Markdown ''**Interpretation:** Average user satisfaction by device. Are some devices associated with higher ratings?'']
      else [Info ''No user ratings available for device analysis.''])"

text \<open>
  \<^verbatim>\<open>watch.groupby("user_id")["watch_duration_minutes"].sum()\<close>, then the left join of the
  users with these totals and \<^verbatim>\<open>fillna({"total_watch_mins": 0})\<close>.
\<close>

definition watch_user :: "(rat, 'p) watch_event list \<Rightarrow> (string \<times> rat) list" where
  "watch_user watch =
     map (\<lambda>(uid, g). (uid, sum_list (map watch_duration_minutes g))) (groupby w_user_id watch)"

definition users_plan :: "'n user list \<Rightarrow> (rat, 'p) watch_event list \<Rightarrow> ('n user \<times> rat) list" where
  "users_plan users watch =
     map (\<lambda>(u, t). (u, case t of None \<Rightarrow> 0 | Some (uid, total_watch_mins) \<Rightarrow> total_watch_mins))
         (merge_left user_id (\<lambda>r. Some (fst r)) users (watch_user watch))"

definition plan_eng :: "'n user list \<Rightarrow> (rat, 'p) watch_event list \<Rightarrow> (string \<times> rat option) list" where
  "plan_eng users watch =
     map (\<lambda>(plan, g). (plan, mean (map snd g)))
         (groupby (\<lambda>r. subscription_plan (fst r)) (users_plan users watch))"

definition satisfaction_by_plan :: "'n user list \<Rightarrow> ('d, 'p) watch_event list \<Rightarrow> rendered list" where
  "satisfaction_by_plan users watch =
     (if watch_rated watch \<noteq> [] then
        [Plotly_chart
           (map (\<lambda>(plan, g). (plan, mean (List.map_filter (\<lambda>r. user_rating (snd r)) g)))
                (groupby (\<lambda>r. subscription_plan (fst r))
                         (merge_inner user_id w_user_id users (watch_rated watch)))),
         Markdown ''**Premium + plans seems to be correlated with higher satisfaction'']
      else [Info ''No user ratings available for plan analysis.''])"

text \<open>
  \<^verbatim>\<open>watch.merge(movies[["movie_id","genre_primary"]], on="movie_id", how="left")\<close>: a
  joined row is a watch event with the movie it matched, if any; its genre is missing when
  no movie matched or the movie has none.
\<close>

definition watch_genre :: "('d, 'p) watch_event list \<Rightarrow> movie list \<Rightarrow> (('d, 'p) watch_event \<times> movie option) list"
  where
  "watch_genre watch movies = merge_left w_movie_id movie_id watch movies"

definition joined_genre :: "('d, 'p) watch_event \<times> movie option \<Rightarrow> string option" where
  "joined_genre r = (case snd r of None \<Rightarrow> None | Some m \<Rightarrow> genre_primary m)"

definition genre_eng :: "(rat, 'p) watch_event list \<Rightarrow> movie list \<Rightarrow> (string \<times> rat) list" where
  "genre_eng watch movies =
     sort_values_desc
       (map (\<lambda>(genre, g). (genre, sum_list (map (\<lambda>r. watch_duration_minutes (fst r)) g)))
            (groupby joined_genre (watch_genre watch movies)))"

definition satisfaction_by_genre :: "('d, 'p) watch_event list \<Rightarrow> movie list \<Rightarrow> rendered list" where
  "satisfaction_by_genre watch movies =
     (if watch_rated watch \<noteq> [] then
        [Plotly_chart
           (map (\<lambda>(genre, g). (genre, mean (List.map_filter (\<lambda>r. user_rating (fst r)) g)))
                (groupby joined_genre
                         (filter (\<lambda>r. user_rating (fst r) \<noteq> None) (watch_genre watch movies)))),
         Markdown ''**Here we can see that adventure doesn't necessarly have the highest user rating despite being the most watched genre'']
      else [Info ''No user ratings available for genre analysis.''])"

subsection \<open>The cached loader and the page\<close>

text \<open>
  \<^verbatim>\<open>@st.cache_data\<close> on a function without varying arguments: the first call reads the
  files and stores what it returns, every later call hands out the stored tables (as a
  copy, so what a caller does to them does not reach the store). The files on disk and the
  store together are the state a page run sees.
\<close>

record 't world =
  disk :: csv_files
  cache :: "'t option"

type_synonym tables = "loaded_user list \<times> loaded_watch list \<times> movie list \<times> recommendation list"

definition cached_load_data :: "tables world \<Rightarrow> (error + tables) \<times> tables world" where
  "cached_load_data w =
     (case cache w of
        Some t \<Rightarrow> (Inr t, w)
      | None \<Rightarrow> (case load_data (disk w) of
                   Inl e \<Rightarrow> (Inl e, w)
                 | Inr t \<Rightarrow> (Inr t, w\<lparr>cache := Some t\<rparr>)))"

text \<open>
  One run of \<^verbatim>\<open>main\<close>: load, then the sections in page order. The sections modelled are
  those whose aggregates are studied below; the others (KPI tiles, scatter plot, map,
  monthly trends, median and quartile tables) read the same tables and draw one chart each.
  The checkbox of the IQR section is an input of the run.
\<close>

definition page :: "bool \<Rightarrow> tables \<Rightarrow> rendered list" where
  "page exclude_outliers t =
     (case t of (users, watch, movies, recs) \<Rightarrow>
        [Plotly_chart (retention_rate users)]
        @ [Plotly_chart (ctr recs)]
        @ [Plotly_chart (map (\<lambda>(d, v). (d, Some v)) (device_eng watch))]
        @ [Box_plot (sess_f exclude_outliers watch)]
        @ satisfaction_by_device watch
        @ [Plotly_chart (plan_eng users watch)]
        @ satisfaction_by_plan users watch
        @ [Plotly_chart (map (\<lambda>(g, v). (g, Some v)) (genre_eng watch movies))]
        @ satisfaction_by_genre watch movies
        @ ctr_by_type_section recs)"

definition main :: "bool \<Rightarrow> tables world \<Rightarrow> (error + rendered list) \<times> tables world" where
  "main exclude_outliers w =
     (case cached_load_data w of
        (Inl e, w') \<Rightarrow> (Inl e, w')
      | (Inr t, w') \<Rightarrow> (Inr (page exclude_outliers t), w'))"

section \<open>netflix_story_dashboard.py: engagement and the retention heat map\<close>



definition avg_watch_per_user :: "(rat, 'p) watch_event list \<Rightarrow> (string \<times> rat) list" where
  "avg_watch_per_user watch =
     map (\<lambda>(uid, g). (uid, sum_list (map watch_duration_minutes g))) (groupby w_user_id watch)"

definition user_engagement :: "'n user list \<Rightarrow> (rat, 'p) watch_event list \<Rightarrow> ('n user \<times> rat) list"
  where
  "user_engagement users watch =
     map (\<lambda>(u, t). (u, case t of None \<Rightarrow> 0 | Some (uid, total_watch_minutes) \<Rightarrow> total_watch_minutes))
         (merge_left user_id (\<lambda>r. Some (fst r)) users (avg_watch_per_user watch))"

definition user_engagement_clean :: "loaded_user list \<Rightarrow> (rat, 'p) watch_event list \<Rightarrow> (loaded_user \<times> rat) list"
  where
  "user_engagement_clean users watch =
     filter (\<lambda>r. monthly_spend (fst r) \<noteq> None) (user_engagement users watch)"

datatype spend_bracket = Spend_0_5 | Spend_5_10 | Spend_10_15 | Spend_15_plus

datatype engagement_level = Low | Medium | High | Very_High

text \<open>\<^verbatim>\<open>pd.cut(x, bins=[0, 5, 10, 15, 100])\<close>: intervals open on the left, closed on the right.\<close>

definition cut_spend :: "rat option \<Rightarrow> spend_bracket option" where
  "cut_spend c =
     (case c of
        None \<Rightarrow> None
      | Some x \<Rightarrow>
          if 0 < x \<and> x \<le> 5 then Some Spend_0_5
          else if 5 < x \<and> x \<le> 10 then Some Spend_5_10
          else if 10 < x \<and> x \<le> 15 then Some Spend_10_15
          else if 15 < x \<and> x \<le> 100 then Some Spend_15_plus
          else None)"

text \<open>
  \<^verbatim>\<open>pd.qcut(x, q=4, labels=[four labels], duplicates='drop')\<close>: the edges are the five
  quartile points; when two of them coincide an edge is dropped and the four labels no
  longer fit, which raises ValueError (as does an empty column). Otherwise a value falls in
  the first interval whose right edge it does not exceed, the lowest edge included.
\<close>

definition qcut :: "rat list \<Rightarrow> error + engagement_level option list" where
  "qcut xs =
     (case (quantile xs 0, quantile xs (1 / 4), quantile xs (1 / 2), quantile xs (3 / 4), quantile xs 1) of
        (Some b0, Some b1, Some b2, Some b3, Some b4) \<Rightarrow>
          if distinct [b0, b1, b2, b3, b4]
          then Inr (map (\<lambda>x. if x < b0 then None
                              else if x \<le> b1 then Some Low
                              else if x \<le> b2 then Some Medium
                              else if x \<le> b3 then Some High
                              else if x \<le> b4 then Some Very_High
                              else None) xs)
          else Inl ValueError
      | _ \<Rightarrow> Inl ValueError)"

text \<open>\<^verbatim>\<open>Series.round(1)\<close>: to one decimal, halves to the even neighbour.\<close>

definition round_half_even :: "rat \<Rightarrow> int" where
  "round_half_even x =
     (let f = \<lfloor>x\<rfloor>; d = x - of_int f
      in if d < 1 / 2 then f else if 1 / 2 < d then f + 1 else if even f then f else f + 1)"

definition round1 :: "rat \<Rightarrow> rat" where
  "round1 x = of_int (round_half_even (x * 10)) / 10"

text \<open>
  The retention matrix: for each engagement level and spend bracket, the number of users
  flagged active (\<^verbatim>\<open>sum\<close>), the number of users with a recorded flag (\<^verbatim>\<open>count\<close>) and
  their ratio as a percentage. A combination without such users has no rate: its cell of
  the heat map is empty.
\<close>

record retention_cell =
  rm_engagement_level :: engagement_level
  rm_spend_bracket :: spend_bracket
  active_count :: nat
  total_count :: nat
  rm_retention_rate :: "rat option"

definition matrix_cell ::
  "engagement_level \<Rightarrow> spend_bracket
     \<Rightarrow> ((loaded_user \<times> rat) \<times> spend_bracket option \<times> engagement_level option) list
     \<Rightarrow> retention_cell"
  where
  "matrix_cell lv br retention_df =
     (let g = filter (\<lambda>(r, b, l). l = Some lv \<and> b = Some br) retention_df;
          a = length (filter (\<lambda>(r, b, l). is_active (fst r) = Some True) g);
          n = length (filter (\<lambda>(r, b, l). is_active (fst r) \<noteq> None) g)
      in \<lparr>rm_engagement_level = lv, rm_spend_bracket = br,
          active_count = a, total_count = n,
          rm_retention_rate =
            (case np_divide (of_nat a) (of_nat n) of
               None \<Rightarrow> None
             | Some r \<Rightarrow> Some (round1 (r * 100)))\<rparr>)"

definition retention_matrix :: "loaded_user list \<Rightarrow> (rat, 'p) watch_event list \<Rightarrow> error + retention_cell list"
  where
  "retention_matrix users watch =
     (let clean = user_engagement_clean users watch in
      case qcut (map snd clean) of
        Inl e \<Rightarrow> Inl e
      | Inr levels \<Rightarrow>
          (let retention_df = zip clean (zip (map (\<lambda>r. cut_spend (monthly_spend (fst r))) clean) levels)
           in Inr (concat (map (\<lambda>lv. map (\<lambda>br. matrix_cell lv br retention_df)
                                        [Spend_0_5, Spend_5_10, Spend_10_15, Spend_15_plus])
                               [Low, Medium, High, Very_High]))))"

section \<open>Example tables\<close>

text \<open>
  A small data set with the irregularities the dashboards have to cope with: cells that do
  not parse, empty cells, a watch event without a device and for an unknown movie, a movie
  without a genre.
\<close>

definition ex_files :: csv_files where
  "ex_files =
     \<lparr>users_csv =
        [\<lparr>user_id = Some ''u1'', subscription_plan = Some ''Basic'',
          monthly_spend = Numeric 8, age = Numeric 30, is_active = Some True\<rparr>,
         \<lparr>user_id = Some ''u2'', subscription_plan = Some ''Basic'',
          monthly_spend = Text ''n/a'', age = Empty, is_active = Some False\<rparr>,
         \<lparr>user_id = Some ''u3'', subscription_plan = Some ''Premium'',
          monthly_spend = Empty, age = Text ''old'', is_active = Some True\<rparr>],
      watch_csv =
        [\<lparr>w_user_id = Some ''u1'', w_movie_id = Some ''m1'', device_type = Some ''TV'',
          watch_duration_minutes = Numeric 50, progress_percentage = Numeric 80,
          user_rating = Some 4\<rparr>,
         \<lparr>w_user_id = Some ''u1'', w_movie_id = Some ''m2'', device_type = Some ''TV'',
          watch_duration_minutes = Text ''long'', progress_percentage = Text ''half'',
          user_rating = None\<rparr>,
         \<lparr>w_user_id = Some ''u2'', w_movie_id = Some ''m1'', device_type = Some ''Mobile'',
          watch_duration_minutes = Empty, progress_percentage = Empty,
          user_rating = Some 3\<rparr>,
         \<lparr>w_user_id = Some ''u2'', w_movie_id = Some ''m9'', device_type = None,
          watch_duration_minutes = Numeric 30, progress_percentage = Numeric 10,
          user_rating = None\<rparr>],
      movies_csv =
        [\<lparr>movie_id = Some ''m1'', genre_primary = Some ''Drama''\<rparr>,
         \<lparr>movie_id = Some ''m2'', genre_primary = None\<rparr>],
      recs_csv =
        [\<lparr>recommendation_id = Some ''r1'', algorithm_version = Some ''v1'',
          recommendation_type = Some ''trending'', was_clicked = Some True\<rparr>,
         \<lparr>recommendation_id = Some ''r2'', algorithm_version = Some ''v1'',
          recommendation_type = Some ''similar'', was_clicked = Some False\<rparr>,
         \<lparr>recommendation_id = Some ''r3'', algorithm_version = Some ''v2'',
          recommendation_type = Some ''trending'', was_clicked = None\<rparr>]\<rparr>"

text \<open>The same tables as ingestion returns them.\<close>

definition ex_users :: "loaded_user list" where
  "ex_users =
     [\<lparr>user_id = Some ''u1'', subscription_plan = Some ''Basic'',
       monthly_spend = Some 8, age = Some 30, is_active = Some True\<rparr>,
      \<lparr>user_id = Some ''u2'', subscription_plan = Some ''Basic'',
       monthly_spend = None, age = None, is_active = Some False\<rparr>,
      \<lparr>user_id = Some ''u3'', subscription_plan = Some ''Premium'',
       monthly_spend = None, age = None, is_active = Some True\<rparr>]"


definition ex_movies :: "movie list" where
  "ex_movies = movies_csv ex_files"





text \<open>
  Sessions on two devices: five on the TV, one of them of 100 minutes among sessions of
  10 to 13, and one on a phone.
\<close>

definition outlier_watch :: "loaded_watch list" where
  "outlier_watch =
     map (\<lambda>(d, m). \<lparr>w_user_id = Some ''u1'', w_movie_id = Some ''m1'', device_type = Some d,
                      watch_duration_minutes = m, progress_percentage = None,
                      user_rating = None\<rparr>)
         [(''TV'', 10), (''TV'', 100), (''Mobile'', 5), (''TV'', 12), (''TV'', 11), (''TV'', 13)]"

text \<open>Users whose active flag is not always recorded.\<close>

definition unflagged_users :: "loaded_user list" where
  "unflagged_users =
     [\<lparr>user_id = Some ''u1'', subscription_plan = Some ''Basic'',
       monthly_spend = Some 8, age = Some 30, is_active = Some True\<rparr>,
      \<lparr>user_id = Some ''u2'', subscription_plan = Some ''Basic'',
       monthly_spend = Some 8, age = None, is_active = None\<rparr>,
      \<lparr>user_id = Some ''u3'', subscription_plan = Some ''Premium'',
       monthly_spend = Some 15, age = None, is_active = None\<rparr>]"

text \<open>A recommendation log in which one of two clicked rows has no id.\<close>

definition blank_id_recs :: "recommendation list" where
  "blank_id_recs =
     [\<lparr>recommendation_id = Some ''r1'', algorithm_version = Some ''v1'',
       recommendation_type = Some ''trending'', was_clicked = Some True\<rparr>,
      \<lparr>recommendation_id = None, algorithm_version = Some ''v1'',
       recommendation_type = Some ''trending'', was_clicked = Some True\<rparr>]"

text \<open>
  Five paying users of the story dashboard, with 0, 10, 20, 30 and 40 minutes of watch
  time; the second has no recorded flag.
\<close>

definition story_users :: "loaded_user list" where
  "story_users =
     map (\<lambda>(uid, spend, flag). \<lparr>user_id = Some uid, subscription_plan = Some ''Basic'',
                                  monthly_spend = Some spend, age = None, is_active = flag\<rparr>)
         [(''a'', 4, Some True), (''b'', 4, None), (''c'', 8, Some False),
          (''d'', 12, Some True), (''e'', 20, Some True)]"

definition story_watch :: "(rat, cell) watch_event list" where
  "story_watch =
     map (\<lambda>(uid, m). \<lparr>w_user_id = Some uid, w_movie_id = Some ''m1'', device_type = Some ''TV'',
                        watch_duration_minutes = m, progress_percentage = Empty,
                        user_rating = None\<rparr>)
         [(''b'', 10), (''c'', 20), (''d'', 30), (''e'', 40)]"

section \<open>Ingestion never fails and coerces leniently\<close>

lemma to_numeric_Coerce:
  "to_numeric Coerce cs = Inr (map (\<lambda>c. case c of Numeric r \<Rightarrow> Some r | _ \<Rightarrow> None) cs)"
  by (induction cs) (auto split: cell.splits)

lemma zip_columns: "zip xs (zip (map f xs) (map g xs)) = map (\<lambda>x. (x, f x, g x)) xs"
  by (induction xs) auto

lemma set_watch_columns_map:
  "set_watch_columns df (map f df) (map g df) =
     map (\<lambda>w. \<lparr>w_user_id = w_user_id w, w_movie_id = w_movie_id w,
                device_type = device_type w, watch_duration_minutes = f w,
                progress_percentage = g w, user_rating = user_rating w\<rparr>) df"
  by (simp add: set_watch_columns_def zip_columns)

lemma set_user_columns_map:
  "set_user_columns df (map f df) (map g df) =
     map (\<lambda>u. \<lparr>user_id = user_id u, subscription_plan = subscription_plan u,
                monthly_spend = f u, age = g u, is_active = is_active u\<rparr>) df"
  by (simp add: set_user_columns_def zip_columns)

lemma fillna_coerced:
  "fillna 0 (map (\<lambda>w. case f w of Numeric r \<Rightarrow> Some r | _ \<Rightarrow> None) ws)
     = map (\<lambda>w. case f w of Numeric r \<Rightarrow> r | _ \<Rightarrow> 0) ws"
  by (auto simp: fillna_def split: cell.splits)

lemma load_data_eq:
  "load_data fs =
     Inr (map (\<lambda>u. \<lparr>user_id = user_id u, subscription_plan = subscription_plan u,
                monthly_spend = (case monthly_spend u of Numeric r \<Rightarrow> Some r | _ \<Rightarrow> None),
                age = (case age u of Numeric r \<Rightarrow> Some r | _ \<Rightarrow> None),
                is_active = is_active u\<rparr>) (users_csv fs),
          map (\<lambda>w. \<lparr>w_user_id = w_user_id w, w_movie_id = w_movie_id w,
                device_type = device_type w,
                watch_duration_minutes = (case watch_duration_minutes w of Numeric r \<Rightarrow> r | _ \<Rightarrow> 0),
                progress_percentage = (case progress_percentage w of Numeric r \<Rightarrow> Some r | _ \<Rightarrow> None),
                user_rating = user_rating w\<rparr>) (watch_csv fs),
          movies_csv fs, recs_csv fs)"
proof -
  show ?thesis
    by (simp add: load_data_def Let_def to_numeric_Coerce comp_def fillna_coerced
        set_watch_columns_map set_user_columns_map)
qed

lemma load_data_story_eq:
  "load_data_story fs =
     Inr (map (\<lambda>u. \<lparr>user_id = user_id u, subscription_plan = subscription_plan u,
                monthly_spend = (case monthly_spend u of Numeric r \<Rightarrow> Some r | _ \<Rightarrow> None),
                age = (case age u of Numeric r \<Rightarrow> Some r | _ \<Rightarrow> None),
                is_active = is_active u\<rparr>) (users_csv fs),
          map (\<lambda>w. \<lparr>w_user_id = w_user_id w, w_movie_id = w_movie_id w,
                device_type = device_type w,
                watch_duration_minutes = (case watch_duration_minutes w of Numeric r \<Rightarrow> r | _ \<Rightarrow> 0),
                progress_percentage = progress_percentage w,
                user_rating = user_rating w\<rparr>) (watch_csv fs),
          movies_csv fs)"
proof -
  show ?thesis
    by (simp add: load_data_story_def Let_def to_numeric_Coerce comp_def fillna_coerced
        set_watch_columns_map set_user_columns_map)
qed

text \<open>
  Claim C5, as the two loaders have it. Neither loader can fail on a cell: each returns its
  tables for every content of the files. In both, a watch duration that is empty or does
  not parse becomes zero, and a monthly spend or an age that is empty or does not parse is
  missing afterwards. The first dashboard treats \<^verbatim>\<open>progress_percentage\<close> like the spend;
  the story dashboard does not touch that column, whose cells stay as they were read.
\<close>

theorem load_data_lenient:
  "(\<exists>us ws. load_data fs = Inr (us, ws, movies_csv fs, recs_csv fs)
      \<and> map watch_duration_minutes ws
          = map (\<lambda>w. case watch_duration_minutes w of Numeric r \<Rightarrow> r | _ \<Rightarrow> 0) (watch_csv fs)
      \<and> map progress_percentage ws
          = map (\<lambda>w. case progress_percentage w of Numeric r \<Rightarrow> Some r | _ \<Rightarrow> None) (watch_csv fs)
      \<and> map monthly_spend us
          = map (\<lambda>u. case monthly_spend u of Numeric r \<Rightarrow> Some r | _ \<Rightarrow> None) (users_csv fs)
      \<and> map age us = map (\<lambda>u. case age u of Numeric r \<Rightarrow> Some r | _ \<Rightarrow> None) (users_csv fs))
   \<and> (\<exists>us ws. load_data_story fs = Inr (us, ws, movies_csv fs)
      \<and> map watch_duration_minutes ws
          = map (\<lambda>w. case watch_duration_minutes w of Numeric r \<Rightarrow> r | _ \<Rightarrow> 0) (watch_csv fs)
      \<and> map progress_percentage ws = map progress_percentage (watch_csv fs)
      \<and> map monthly_spend us
          = map (\<lambda>u. case monthly_spend u of Numeric r \<Rightarrow> Some r | _ \<Rightarrow> None) (users_csv fs)
      \<and> map age us = map (\<lambda>u. case age u of Numeric r \<Rightarrow> Some r | _ \<Rightarrow> None) (users_csv fs))"
  by (simp add: load_data_eq load_data_story_eq comp_def)

text \<open>The example files, loaded by both dashboards.\<close>

theorem load_data_lenient_witness:
  "(\<exists>us ws. load_data ex_files = Inr (us, ws, movies_csv ex_files, recs_csv ex_files)
      \<and> map watch_duration_minutes ws = [50, 0, 0, 30]
      \<and> map progress_percentage ws = [Some 80, None, None, Some 10]
      \<and> map monthly_spend us = [Some 8, None, None]
      \<and> map age us = [Some 30, None, None])
   \<and> (\<exists>us ws. load_data_story ex_files = Inr (us, ws, movies_csv ex_files)
      \<and> map watch_duration_minutes ws = [50, 0, 0, 30]
      \<and> map progress_percentage ws = [Numeric 80, Text ''half'', Empty, Numeric 10]
      \<and> map monthly_spend us = [Some 8, None, None]
      \<and> map age us = [Some 30, None, None])"
proof -
  have d: "map (\<lambda>w. case watch_duration_minutes w of Numeric r \<Rightarrow> r | _ \<Rightarrow> 0) (watch_csv ex_files)
             = [50, 0, 0, 30]"
    by (simp add: ex_files_def)
  have p: "map (\<lambda>w. case progress_percentage w of Numeric r \<Rightarrow> Some r | _ \<Rightarrow> None) (watch_csv ex_files)
             = [Some 80, None, None, Some 10]"
    by (simp add: ex_files_def)
  have m: "map (\<lambda>u. case monthly_spend u of Numeric r \<Rightarrow> Some r | _ \<Rightarrow> None) (users_csv ex_files)
             = [Some 8, None, None]"
    by (simp add: ex_files_def)
  have a: "map (\<lambda>u. case age u of Numeric r \<Rightarrow> Some r | _ \<Rightarrow> None) (users_csv ex_files)
             = [Some 30, None, None]"
    by (simp add: ex_files_def)
  have q: "map progress_percentage (watch_csv ex_files) = [Numeric 80, Text ''half'', Empty, Numeric 10]"
    by (simp add: ex_files_def)
  show ?thesis
    using load_data_lenient [of ex_files] unfolding d p m a q .
qed

text \<open>
  In the story dashboard the unparseable progress cell \<open>half\<close> of the example is still
  text after ingestion, not a missing value.
\<close>

theorem story_progress_not_coerced:
  "map_sum id (\<lambda>(us, ws, ms). map progress_percentage ws) (load_data_story ex_files)
     = Inr [Numeric 80, Text ''half'', Empty, Numeric 10]"
  by (simp add: load_data_story_eq ex_files_def)

section \<open>Facts about grouping and joining\<close>

lemma set_group_keys: "set (group_keys key df) = {k. \<exists>r \<in> set df. key r = Some k}"
  by (force simp: group_keys_def List.map_filter_def)

lemma distinct_group_keys: "distinct (group_keys key df)"
  by (simp add: group_keys_def)









section \<open>Grouped sums against the whole-table sum\<close>







section \<open>Signs of the aggregates\<close>








section \<open>The left join of the users with their watch totals\<close>


lemma group_keys_map: "group_keys key (map g df) = group_keys (\<lambda>r. key (g r)) df"
  by (simp add: group_keys_def List.map_filter_def filter_map comp_def)

lemma groupby_map:
  "groupby key (map g df)
     = map (\<lambda>k. (k, map g (filter (\<lambda>r. key (g r) = Some k) df))) (group_keys (\<lambda>r. key (g r)) df)"
  by (simp add: groupby_def group_keys_map filter_map comp_def)







section \<open>The per-device IQR trim\<close>











section \<open>Sections without data\<close>

lemma watch_rated_empty: "\<forall>w \<in> set watch. user_rating w = None \<Longrightarrow> watch_rated watch = []"
  by (simp add: watch_rated_def filter_empty_conv)

text \<open>
  Claim C8. When no watch event has a rating, each of the three satisfaction sections
  (by device, by plan, by genre) puts its informational message on the page and nothing
  else, so no chart; when the recommendation log has no rows, so does the section of the
  click-through rate by type.
\<close>

theorem empty_sections_render_info:
  "((\<forall>w \<in> set watch. user_rating w = None)
      \<longrightarrow> satisfaction_by_device watch = [Info ''No user ratings available for device analysis.'']
        \<and> satisfaction_by_plan users watch = [Info ''No user ratings available for plan analysis.'']
        \<and> satisfaction_by_genre watch movies = [Info ''No user ratings available for genre analysis.''])
   \<and> ctr_by_type_section [] = [Info ''No recommendation logs available to analyze.'']"
  by (simp add: watch_rated_empty satisfaction_by_device_def satisfaction_by_plan_def
      satisfaction_by_genre_def ctr_by_type_section_def)

text \<open>The sessions of the outlier example carry no rating.\<close>

theorem empty_sections_render_info_witness:
  "list_all (\<lambda>w. user_rating w = None) outlier_watch
   \<and> satisfaction_by_device outlier_watch = [Info ''No user ratings available for device analysis.'']
   \<and> satisfaction_by_plan ex_users outlier_watch = [Info ''No user ratings available for plan analysis.'']
   \<and> satisfaction_by_genre outlier_watch ex_movies = [Info ''No user ratings available for genre analysis.'']
   \<and> ctr_by_type_section [] = [Info ''No recommendation logs available to analyze.'']"
proof -
  have a: "\<forall>w \<in> set outlier_watch. user_rating w = None"
    by (simp add: outlier_watch_def)
  show ?thesis
    using empty_sections_render_info [of outlier_watch ex_users ex_movies] a
    by (simp add: list_all_iff)
qed

section \<open>The loader is deterministic and nothing writes to the files\<close>



section \<open>Retention by subscription plan\<close>

lemma flags_partition:
  "length (filter (\<lambda>u. is_active u = Some True) g) + length (filter (\<lambda>u. is_active u = Some False) g)
     = length (filter (\<lambda>u. is_active u \<noteq> None) g)"
proof (induction g)
  case Nil
  then show ?case by simp
next
  case (Cons u g)
  then show ?case by (cases "is_active u") auto
qed

lemma filter_filter_plan:
  "filter P (filter (\<lambda>u. subscription_plan u = Some plan) users)
     = filter (\<lambda>u. subscription_plan u = Some plan \<and> P u) users"
  by (induction users) auto

lemma flagged_count_pos:
  "u \<in> set users \<Longrightarrow> subscription_plan u = Some plan \<Longrightarrow> is_active u \<noteq> None \<Longrightarrow>
     0 < length (filter (\<lambda>u. subscription_plan u = Some plan \<and> is_active u \<noteq> None) users)"
  by (auto simp: filter_empty_conv)

lemma retention_eq:
  "retention users =
     map (\<lambda>plan. (plan,
            length (filter (\<lambda>u. subscription_plan u = Some plan \<and> is_active u = Some True) users),
            length (filter (\<lambda>u. subscription_plan u = Some plan \<and> is_active u = Some False) users)))
         (filter (\<lambda>plan. \<exists>u \<in> set users. subscription_plan u = Some plan \<and> is_active u \<noteq> None)
                 (group_keys subscription_plan users))"
  unfolding retention_def groupby_def filter_map map_map comp_def prod.case filter_filter_plan
  by (simp only: set_filter mem_Collect_eq Bex_def conj_assoc)

lemma flags_partition_rat:
  "rat_of_nat (length (filter (\<lambda>u. subscription_plan u = Some plan \<and> is_active u = Some True) users))
       + rat_of_nat (length (filter (\<lambda>u. subscription_plan u = Some plan \<and> is_active u = Some False) users))
      = rat_of_nat (length (filter (\<lambda>u. subscription_plan u = Some plan \<and> is_active u \<noteq> None) users))"
proof -
  have "length (filter (\<lambda>u. subscription_plan u = Some plan \<and> is_active u = Some True) users)
       + length (filter (\<lambda>u. subscription_plan u = Some plan \<and> is_active u = Some False) users)
      = length (filter (\<lambda>u. subscription_plan u = Some plan \<and> is_active u \<noteq> None) users)"
    using flags_partition [of "filter (\<lambda>u. subscription_plan u = Some plan) users"]
    by (simp only: filter_filter_plan)
  then show ?thesis
    by (simp only: of_nat_add [symmetric])
qed

lemma retention_rate_eq:
  "retention_rate users =
     map (\<lambda>plan. (plan,
            np_divide
              (of_nat (length (filter (\<lambda>u. subscription_plan u = Some plan \<and> is_active u = Some True) users)))
              (of_nat (length (filter (\<lambda>u. subscription_plan u = Some plan \<and> is_active u \<noteq> None) users)))))
         (filter (\<lambda>plan. \<exists>u \<in> set users. subscription_plan u = Some plan \<and> is_active u \<noteq> None)
                 (group_keys subscription_plan users))"
  unfolding retention_rate_def retention_eq map_map comp_def prod.case flags_partition_rat
  by (rule refl)

text \<open>
  Claim C3, as the code has it. A plan has a reported retention rate if and only if at
  least one of its users has a recorded active flag, and then exactly one: the number of
  the plan's users flagged active divided by the number of the plan's users whose flag is
  recorded. Users without a flag are left out of the count. When every user has a flag,
  the divisor is the number of users of the plan and every plan of the table has a rate.
\<close>

theorem retention_rate_per_plan:
  "((plan, rate) \<in> set (retention_rate users) \<longleftrightarrow>
       (\<exists>u \<in> set users. subscription_plan u = Some plan \<and> is_active u \<noteq> None)
       \<and> rate = Some (of_nat (length (filter (\<lambda>u. subscription_plan u = Some plan \<and> is_active u = Some True) users))
                      / of_nat (length (filter (\<lambda>u. subscription_plan u = Some plan \<and> is_active u \<noteq> None) users))))
   \<and> distinct (map fst (retention_rate users))
   \<and> ((\<forall>u \<in> set users. is_active u \<noteq> None) \<longrightarrow>
        ((plan, rate) \<in> set (retention_rate users) \<longleftrightarrow>
           (\<exists>u \<in> set users. subscription_plan u = Some plan)
           \<and> rate = Some (of_nat (length (filter (\<lambda>u. subscription_plan u = Some plan \<and> is_active u = Some True) users))
                          / of_nat (length (filter (\<lambda>u. subscription_plan u = Some plan) users)))))"
proof -
  let ?T = "\<lambda>plan. rat_of_nat (length (filter (\<lambda>u. subscription_plan u = Some plan \<and> is_active u = Some True) users))"
  let ?N = "\<lambda>plan. rat_of_nat (length (filter (\<lambda>u. subscription_plan u = Some plan \<and> is_active u \<noteq> None) users))"
  let ?has = "\<lambda>plan. \<exists>u \<in> set users. subscription_plan u = Some plan \<and> is_active u \<noteq> None"
  have rate: "np_divide (?T p) (?N p) = Some (?T p / ?N p)" if "?has p" for p
  proof -
    from that obtain u where "u \<in> set users" "subscription_plan u = Some p" "is_active u \<noteq> None"
      by blast
    then have "0 < length (filter (\<lambda>u. subscription_plan u = Some p \<and> is_active u \<noteq> None) users)"
      by (rule flagged_count_pos)
    then show ?thesis by (simp add: np_divide_def)
  qed
  have keys: "p \<in> set (group_keys subscription_plan users)" if "?has p" for p
    using that by (auto simp: set_group_keys)
  have main: "(plan, rate) \<in> set (retention_rate users) \<longleftrightarrow> ?has plan \<and> rate = Some (?T plan / ?N plan)"
  proof
    assume "(plan, rate) \<in> set (retention_rate users)"
    then have h: "?has plan" and r: "rate = np_divide (?T plan) (?N plan)"
      unfolding retention_rate_eq by auto
    then show "?has plan \<and> rate = Some (?T plan / ?N plan)"
      using rate [OF h] by simp
  next
    assume a: "?has plan \<and> rate = Some (?T plan / ?N plan)"
    then have "plan \<in> set (filter ?has (group_keys subscription_plan users))"
      using keys by simp
    moreover have "rate = np_divide (?T plan) (?N plan)"
      using a rate by simp
    ultimately show "(plan, rate) \<in> set (retention_rate users)"
      unfolding retention_rate_eq by (simp add: image_iff)
  qed
  have dist: "distinct (map fst (retention_rate users))"
    unfolding retention_rate_eq by (simp add: comp_def distinct_group_keys)
  have all: "(plan, rate) \<in> set (retention_rate users) \<longleftrightarrow>
           (\<exists>u \<in> set users. subscription_plan u = Some plan)
           \<and> rate = Some (?T plan / of_nat (length (filter (\<lambda>u. subscription_plan u = Some plan) users)))"
    if f: "\<forall>u \<in> set users. is_active u \<noteq> None"
  proof -
    have "filter (\<lambda>u. subscription_plan u = Some plan \<and> is_active u \<noteq> None) users
        = filter (\<lambda>u. subscription_plan u = Some plan) users"
      using f by (intro filter_cong) auto
    moreover have "?has plan \<longleftrightarrow> (\<exists>u \<in> set users. subscription_plan u = Some plan)"
      using f by auto
    ultimately show ?thesis using main by simp
  qed
  show ?thesis
    by (intro conjI impI) (rule main, rule dist, rule all)
qed

text \<open>
  The example users all have a flag: of the two Basic users one is active, and the
  one Premium user is.
\<close>

theorem retention_rate_per_plan_witness:
  "list_all (\<lambda>u. is_active u \<noteq> None) ex_users
   \<and> (''Basic'', Some (1 / 2)) \<in> set (retention_rate ex_users)
   \<and> distinct (map fst (retention_rate ex_users))"
proof -
  have f: "\<forall>u \<in> set ex_users. is_active u \<noteq> None"
    by (auto simp: ex_users_def)
  have e: "\<exists>u \<in> set ex_users. subscription_plan u = Some ''Basic''"
    by (simp add: ex_users_def)
  have v: "Some (1 / 2) =
      Some (rat_of_nat (length (filter (\<lambda>u. subscription_plan u = Some ''Basic'' \<and> is_active u = Some True) ex_users))
            / rat_of_nat (length (filter (\<lambda>u. subscription_plan u = Some ''Basic'') ex_users)))"
    by (simp add: ex_users_def)
  note t = retention_rate_per_plan [of "''Basic''" "Some (1 / 2)" ex_users]
  from t have d: "distinct (map fst (retention_rate ex_users))"
    by (rule conjunct1 [OF conjunct2])
  from t have "(\<forall>u \<in> set ex_users. is_active u \<noteq> None) \<longrightarrow>
        ((''Basic'', Some (1 / 2)) \<in> set (retention_rate ex_users) \<longleftrightarrow>
           (\<exists>u \<in> set ex_users. subscription_plan u = Some ''Basic'')
           \<and> Some (1 / 2) = Some (rat_of_nat (length (filter (\<lambda>u. subscription_plan u = Some ''Basic'' \<and> is_active u = Some True) ex_users))
                          / rat_of_nat (length (filter (\<lambda>u. subscription_plan u = Some ''Basic'') ex_users))))"
    by (rule conjunct2 [OF conjunct2])
  with f e v have b: "(''Basic'', Some (1 / 2)) \<in> set (retention_rate ex_users)"
    by (simp only: simp_thms)
  show ?thesis
    using f d b by (simp only: list_all_iff simp_thms)
qed

text \<open>
  Two Basic users, one flagged active and one without a flag: the reported rate is 1, not
  one half. The Premium plan is in the table, but its only user has no flag and the plan
  has no rate at all.
\<close>

theorem retention_rate_ignores_unflagged:
  "retention_rate unflagged_users = [(''Basic'', Some 1)]
   \<and> length (filter (\<lambda>u. subscription_plan u = Some ''Basic'' \<and> is_active u = Some True) unflagged_users) = 1
   \<and> length (filter (\<lambda>u. subscription_plan u = Some ''Basic'') unflagged_users) = 2
   \<and> length (filter (\<lambda>u. subscription_plan u = Some ''Premium'') unflagged_users) = 1"
  by code_simp

section \<open>Click-through rates\<close>

lemma astype_str_True: "astype_str c = ''True'' \<longleftrightarrow> c = Some True"
  by (cases c rule: astype_str.cases) simp_all

lemma filter_filter_key:
  "filter P (filter (\<lambda>r. key r = Some k) df) = filter (\<lambda>r. key r = Some k \<and> P r) df"
  by (induction df) auto

lemma ctr_eq:
  "ctr recs =
     map (\<lambda>v. (v, np_divide
                     (of_nat (length (filter (\<lambda>r. algorithm_version r = Some v \<and> was_clicked r = Some True) recs)))
                     (of_nat (length (filter (\<lambda>r. algorithm_version r = Some v) recs)))))
         (group_keys algorithm_version recs)"
  unfolding ctr_def groupby_def map_map comp_def prod.case filter_map length_map
    astype_str_True filter_filter_key
  by (rule refl)

lemma rec_summary_eq:
  "rec_summary recs =
     map (\<lambda>ty. \<lparr>rs_recommendation_type = ty,
                 impressions = length (filter (\<lambda>r. recommendation_type r = Some ty \<and> recommendation_id r \<noteq> None) recs),
                 clicks = length (filter (\<lambda>r. recommendation_type r = Some ty \<and> was_clicked r = Some True) recs),
                 rs_ctr = np_divide
                   (of_nat (length (filter (\<lambda>r. recommendation_type r = Some ty \<and> was_clicked r = Some True) recs)))
                   (of_nat (length (filter (\<lambda>r. recommendation_type r = Some ty \<and> recommendation_id r \<noteq> None) recs)))\<rparr>)
         (group_keys recommendation_type recs)"
  unfolding rec_summary_def groupby_def map_map comp_def prod.case Let_def
    astype_str_True filter_filter_key
  by (rule refl)

lemma ratio_in_unit:
  assumes "a \<le> n" and "0 < n"
  shows "np_divide (of_nat a) (of_nat n) = Some (rat_of_nat a / rat_of_nat n)"
    and "0 \<le> rat_of_nat a / rat_of_nat n" and "rat_of_nat a / rat_of_nat n \<le> 1"
proof -
  show "np_divide (of_nat a) (of_nat n) = Some (rat_of_nat a / rat_of_nat n)"
    using assms(2) by (simp add: np_divide_def)
  show "0 \<le> rat_of_nat a / rat_of_nat n" by simp
  have "rat_of_nat a \<le> rat_of_nat n" using assms(1) by simp
  then show "rat_of_nat a / rat_of_nat n \<le> 1"
    using assms(2) by (simp add: divide_le_eq_1)
qed

lemma length_filter_conj_le:
  "length (filter (\<lambda>r. P r \<and> Q r) df) \<le> length (filter P df)"
  by (induction df) auto

lemma key_count_pos:
  "k \<in> set (group_keys key df) \<Longrightarrow> 0 < length (filter (\<lambda>r. key r = Some k) df)"
  by (auto simp: set_group_keys filter_empty_conv)

text \<open>
  Every click-through rate by algorithm version is the share of the clicked rows among all
  the rows of the version, a number between 0 and 1.
\<close>

lemma ctr_in_unit:
  assumes "(v, c) \<in> set (ctr recs)"
  shows "c = Some (rat_of_nat (length (filter (\<lambda>r. algorithm_version r = Some v \<and> was_clicked r = Some True) recs))
                   / rat_of_nat (length (filter (\<lambda>r. algorithm_version r = Some v) recs)))
         \<and> (\<exists>x. c = Some x \<and> 0 \<le> x \<and> x \<le> 1)"
proof -
  let ?a = "length (filter (\<lambda>r. algorithm_version r = Some v \<and> was_clicked r = Some True) recs)"
  let ?n = "length (filter (\<lambda>r. algorithm_version r = Some v) recs)"
  from assms have v: "v \<in> set (group_keys algorithm_version recs)"
    and c: "c = np_divide (of_nat ?a) (of_nat ?n)"
    unfolding ctr_eq by auto
  have n: "0 < ?n" using v by (rule key_count_pos)
  have a: "?a \<le> ?n" by (rule length_filter_conj_le)
  show ?thesis
    using ratio_in_unit [OF a n] c by simp
qed

text \<open>So is every retention rate by plan.\<close>

lemma retention_rate_in_unit:
  assumes "(plan, rate) \<in> set (retention_rate users)"
  shows "\<exists>x. rate = Some x \<and> 0 \<le> x \<and> x \<le> 1"
proof -
  let ?a = "length (filter (\<lambda>u. subscription_plan u = Some plan \<and> is_active u = Some True) users)"
  let ?n = "length (filter (\<lambda>u. subscription_plan u = Some plan \<and> is_active u \<noteq> None) users)"
  from assms have h: "\<exists>u \<in> set users. subscription_plan u = Some plan \<and> is_active u \<noteq> None"
    and r: "rate = np_divide (of_nat ?a) (of_nat ?n)"
    unfolding retention_rate_eq by auto
  from h obtain u where "u \<in> set users" "subscription_plan u = Some plan" "is_active u \<noteq> None"
    by blast
  then have n: "0 < ?n" by (rule flagged_count_pos)
  have "?a \<le> ?n"
  proof -
    have "filter (\<lambda>u. subscription_plan u = Some plan \<and> is_active u = Some True) users
        = filter (\<lambda>u. (subscription_plan u = Some plan \<and> is_active u \<noteq> None) \<and> is_active u = Some True) users"
      by (rule filter_cong) auto
    then show ?thesis by (simp only: length_filter_conj_le)
  qed
  from ratio_in_unit [OF this n] r show ?thesis by simp
qed

text \<open>
  The click-through rate by recommendation type divides by the number of rows that carry a
  recommendation id. It is the share of clicked rows, between 0 and 1, for a type all of
  whose rows carry one.
\<close>

lemma rec_summary_in_unit:
  assumes "row \<in> set (rec_summary recs)"
    and "\<forall>r \<in> set recs. recommendation_type r = Some (rs_recommendation_type row)
                            \<longrightarrow> recommendation_id r \<noteq> None"
  shows "rs_ctr row = Some (rat_of_nat (clicks row)
                   / rat_of_nat (length (filter (\<lambda>r. recommendation_type r = Some (rs_recommendation_type row)) recs)))
         \<and> (\<exists>x. rs_ctr row = Some x \<and> 0 \<le> x \<and> x \<le> 1)"
proof -
  let ?ty = "rs_recommendation_type row"
  let ?a = "length (filter (\<lambda>r. recommendation_type r = Some ?ty \<and> was_clicked r = Some True) recs)"
  let ?n = "length (filter (\<lambda>r. recommendation_type r = Some ?ty) recs)"
  from assms(1) obtain ty where ty: "ty \<in> set (group_keys recommendation_type recs)"
    and row: "row = \<lparr>rs_recommendation_type = ty,
                 impressions = length (filter (\<lambda>r. recommendation_type r = Some ty \<and> recommendation_id r \<noteq> None) recs),
                 clicks = length (filter (\<lambda>r. recommendation_type r = Some ty \<and> was_clicked r = Some True) recs),
                 rs_ctr = np_divide
                   (of_nat (length (filter (\<lambda>r. recommendation_type r = Some ty \<and> was_clicked r = Some True) recs)))
                   (of_nat (length (filter (\<lambda>r. recommendation_type r = Some ty \<and> recommendation_id r \<noteq> None) recs)))\<rparr>"
    unfolding rec_summary_eq by auto
  have t: "ty = ?ty" by (simp add: row)
  have ids: "filter (\<lambda>r. recommendation_type r = Some ?ty \<and> recommendation_id r \<noteq> None) recs
           = filter (\<lambda>r. recommendation_type r = Some ?ty) recs"
    using assms(2) by (intro filter_cong) auto
  have c: "rs_ctr row = np_divide (of_nat ?a) (of_nat ?n)" and k: "clicks row = ?a"
    using ids by (simp_all add: row)
  have n: "0 < ?n" using ty unfolding t by (rule key_count_pos)
  have a: "?a \<le> ?n" by (rule length_filter_conj_le)
  show ?thesis
    using ratio_in_unit [OF a n] c k by simp
qed

section \<open>The retention heat map of the story dashboard\<close>

lemma round_half_even_bounds:
  assumes "0 \<le> z" and "z \<le> of_int m"
  shows "0 \<le> round_half_even z" and "round_half_even z \<le> m"
proof -
  let ?f = "\<lfloor>z\<rfloor>"
  have f0: "0 \<le> ?f" using assms(1) by simp
  have fm: "?f \<le> m" using assms(2) by (simp add: floor_le_iff)
  have r: "round_half_even z = ?f \<or> (round_half_even z = ?f + 1 \<and> 1 / 2 \<le> z - of_int ?f)"
    unfolding round_half_even_def Let_def by (simp only: split: if_split) linarith
  from r f0 show "0 \<le> round_half_even z" by linarith
  show "round_half_even z \<le> m"
  proof (cases "round_half_even z = ?f")
    case True
    then show ?thesis using fm by simp
  next
    case False
    with r have h: "round_half_even z = ?f + 1" and d: "1 / 2 \<le> z - of_int ?f" by simp_all
    have "of_int ?f < (of_int m :: rat)" using d assms(2) by linarith
    then have "?f < m" by (simp only: of_int_less_iff)
    then show ?thesis using h by simp
  qed
qed

lemma round1_percent:
  assumes "0 \<le> x" and "x \<le> 1"
  shows "0 \<le> round1 (x * 100) \<and> round1 (x * 100) \<le> 100"
proof -
  have z0: "0 \<le> x * 100 * 10" using assms(1) by simp
  have z1: "x * 100 * 10 \<le> of_int 1000" using assms(2) by simp
  have "0 \<le> round_half_even (x * 100 * 10)" and "round_half_even (x * 100 * 10) \<le> 1000"
    using round_half_even_bounds [OF z0 z1] by simp_all
  then have "(0::rat) \<le> of_int (round_half_even (x * 100 * 10))"
    and "(of_int (round_half_even (x * 100 * 10)) :: rat) \<le> 1000"
    by simp_all
  then show ?thesis by (simp add: round1_def)
qed

lemma retention_cell_rate:
  fixes a n :: nat
  assumes "a \<le> n"
    and "(case np_divide (of_nat a) (of_nat n) of None \<Rightarrow> None | Some r \<Rightarrow> Some (round1 (r * 100))) = Some x"
  shows "0 < n" and "0 \<le> x" and "x \<le> 100"
proof -
  show n: "0 < n" using assms(2) by (cases "n = 0") (simp_all add: np_divide_def)
  note u = ratio_in_unit [OF assms(1) n]
  have x: "x = round1 (rat_of_nat a / rat_of_nat n * 100)"
    using assms(2) unfolding u(1) by simp
  show "0 \<le> x" and "x \<le> 100"
    unfolding x using round1_percent [OF u(2) u(3)] by simp_all
qed

lemma matrix_cell_rate:
  assumes "rm_retention_rate (matrix_cell lv br df) = Some x"
  shows "0 < total_count (matrix_cell lv br df)
       \<and> active_count (matrix_cell lv br df) \<le> total_count (matrix_cell lv br df)
       \<and> 0 \<le> x \<and> x \<le> 100"
proof -
  let ?g = "filter (\<lambda>(r, b, l). l = Some lv \<and> b = Some br) df"
  let ?a = "length (filter (\<lambda>(r, b, l). is_active (fst r) = Some True) ?g)"
  let ?n = "length (filter (\<lambda>(r, b, l). is_active (fst r) \<noteq> None) ?g)"
  have a: "active_count (matrix_cell lv br df) = ?a"
    and n: "total_count (matrix_cell lv br df) = ?n"
    and r: "rm_retention_rate (matrix_cell lv br df)
              = (case np_divide (of_nat ?a) (of_nat ?n) of
                   None \<Rightarrow> None | Some r \<Rightarrow> Some (round1 (r * 100)))"
    by (simp_all add: matrix_cell_def Let_def)
  have le: "?a \<le> ?n"
  proof -
    have "filter (\<lambda>(r, b, l). is_active (fst r) = Some True) ?g
        = filter (\<lambda>p. (case p of (r, b, l) \<Rightarrow> is_active (fst r) \<noteq> None)
                      \<and> (case p of (r, b, l) \<Rightarrow> is_active (fst r) = Some True)) ?g"
      by (rule filter_cong) auto
    then show ?thesis by (simp only: length_filter_conj_le)
  qed
  have h: "(case np_divide (of_nat ?a) (of_nat ?n) of
              None \<Rightarrow> None | Some r \<Rightarrow> Some (round1 (r * 100))) = Some x"
    using assms unfolding r .
  show ?thesis
    unfolding a n
    by (intro conjI) (rule retention_cell_rate [OF le h], rule le, (rule retention_cell_rate [OF le h])+)
qed

text \<open>
  Every cell of the retention matrix that has a rate has at least one user with a recorded
  flag, and its rate is a percentage between 0 and 100.
\<close>

lemma retention_matrix_in_percent:
  assumes "retention_matrix users watch = Inr cells" and "cell \<in> set cells"
    and "rm_retention_rate cell = Some x"
  shows "0 < total_count cell \<and> active_count cell \<le> total_count cell \<and> 0 \<le> x \<and> x \<le> 100"
proof -
  from assms(1,2) obtain lv br df where "cell = matrix_cell lv br df"
    unfolding retention_matrix_def Let_def by (auto split: sum.splits)
  with assms(3) show ?thesis by (simp add: matrix_cell_rate)
qed

section \<open>The click-through rate by type on a log with a blank id\<close>

text \<open>
  Claim C4 says that the click-through rate of an algorithm version or of a recommendation
  type is the number of clicked records of the group divided by the number of its records.
  The chart by algorithm version does that (\<open>ctr_in_unit\<close>), and so does the chart by
  type while every row carries a recommendation id (\<open>rec_summary_in_unit\<close>). On a log
  with two clicked rows of one type, one of them without an id, the chart by type counts
  one impression and two clicks and reports 2, where the chart by version reports 1.
\<close>

theorem ctr_by_type_blank_id:
  "rec_summary blank_id_recs
     = [\<lparr>rs_recommendation_type = ''trending'', impressions = 1, clicks = 2, rs_ctr = Some 2\<rparr>]
   \<and> length (filter (\<lambda>r. recommendation_type r = Some ''trending'') blank_id_recs) = 2
   \<and> length (filter (\<lambda>r. recommendation_type r = Some ''trending'' \<and> was_clicked r = Some True)
                      blank_id_recs) = 2
   \<and> ctr blank_id_recs = [(''v1'', Some 1)]"
  by code_simp

text \<open>
  Claim C2 says that every retention rate and every click-through rate lies between 0 and
  1 (0 and 100 as a percentage). That holds for the retention rate by plan
  (\<open>retention_rate_in_unit\<close>), for every cell of the retention matrix that has a rate
  (\<open>retention_matrix_in_percent\<close>) and for the click-through rate by algorithm version
  (\<open>ctr_in_unit\<close>). The section of the click-through rate by type, on the log with a
  blank id, draws a bar of height 2.
\<close>

theorem ctr_by_type_above_one:
  "map rs_ctr (rec_summary blank_id_recs) = [Some 2]
   \<and> ctr_by_type_section blank_id_recs
       = [Plotly_chart [(''trending'', Some 2)],
          Markdown ''**New releases is what works the best to get users to click on recommendations'']"
  by code_simp

text \<open>The retention matrix of the story example: four cells have a rate, twelve have none.\<close>

lemma retention_matrix_story_example:
  "map_sum id (map (\<lambda>c. (active_count c, total_count c, rm_retention_rate c)))
          (retention_matrix story_users story_watch)
     = Inr [(1, 1, Some 100), (0, 0, None), (0, 0, None), (0, 0, None),
            (0, 0, None), (0, 1, Some 0), (0, 0, None), (0, 0, None),
            (0, 0, None), (0, 0, None), (1, 1, Some 100), (0, 0, None),
            (0, 0, None), (0, 0, None), (0, 0, None), (1, 1, Some 100)]"
  by code_simp

end
